theory Spec2Isabelle
  imports Complex_Main
begin

section \<open>Numbers\<close>

text \<open>
  A Go \<open>float64\<close> is modelled as an exact real number or the value \<open>NaN\<close>.
  The arithmetic below is exact on numbers (rounding to 53 bits is not modelled, nor is
  the sign of zero) and follows IEEE 754 for \<open>NaN\<close>: every operation with a \<open>NaN\<close>
  operand gives \<open>NaN\<close>, and every ordered comparison with \<open>NaN\<close> is false.
  The one property below that depends on rounding, the green channel of the teal and
  orange grade, is settled on a second model of that function with binary64 rounding.
  Infinities are left out: a JSON number is finite, and no operation of the pipeline
  overflows (every product has a factor in [0,1] or a fixed coefficient).
  The grid size is a Go \<open>int\<close>, modelled as \<open>int\<close>: the loops only run on indices
  between 0 and the size, where no operation wraps.
\<close>

datatype f64 = NaN | Fin real

instantiation f64 :: "{plus, minus, times, ord}"
begin

definition plus_f64 :: "f64 \<Rightarrow> f64 \<Rightarrow> f64" where
  "plus_f64 a b = (case a of NaN \<Rightarrow> NaN | Fin x \<Rightarrow> (case b of NaN \<Rightarrow> NaN | Fin y \<Rightarrow> Fin (x + y)))"

definition minus_f64 :: "f64 \<Rightarrow> f64 \<Rightarrow> f64" where
  "minus_f64 a b = (case a of NaN \<Rightarrow> NaN | Fin x \<Rightarrow> (case b of NaN \<Rightarrow> NaN | Fin y \<Rightarrow> Fin (x - y)))"

definition times_f64 :: "f64 \<Rightarrow> f64 \<Rightarrow> f64" where
  "times_f64 a b = (case a of NaN \<Rightarrow> NaN | Fin x \<Rightarrow> (case b of NaN \<Rightarrow> NaN | Fin y \<Rightarrow> Fin (x * y)))"

definition less_f64 :: "f64 \<Rightarrow> f64 \<Rightarrow> bool" where
  "less_f64 a b = (case a of NaN \<Rightarrow> False | Fin x \<Rightarrow> (case b of NaN \<Rightarrow> False | Fin y \<Rightarrow> x < y))"

definition less_eq_f64 :: "f64 \<Rightarrow> f64 \<Rightarrow> bool" where
  "less_eq_f64 a b = (case a of NaN \<Rightarrow> False | Fin x \<Rightarrow> (case b of NaN \<Rightarrow> False | Fin y \<Rightarrow> x \<le> y))"

instance ..

end

text \<open>Go's \<open>==\<close> on floats: false as soon as one side is \<open>NaN\<close>.\<close>

definition feq :: "f64 \<Rightarrow> f64 \<Rightarrow> bool" where
  "feq a b = (case a of NaN \<Rightarrow> False | Fin x \<Rightarrow> (case b of NaN \<Rightarrow> False | Fin y \<Rightarrow> x = y))"

text \<open>
  Division. The only division of the source is \<open>float64(i) / float64(size-1)\<close>; its
  divisor is zero only for \<open>size = 1\<close>, where the dividend is \<open>0\<close> too and the
  quotient is \<open>NaN\<close>.
\<close>

definition fdiv :: "f64 \<Rightarrow> f64 \<Rightarrow> f64" where
  "fdiv a b = (case a of NaN \<Rightarrow> NaN | Fin x \<Rightarrow>
     (case b of NaN \<Rightarrow> NaN | Fin y \<Rightarrow> if y = 0 then NaN else Fin (x / y)))"

text \<open>Go's built-in \<open>min\<close> on floats: \<open>NaN\<close> if either argument is.\<close>

definition fmin :: "f64 \<Rightarrow> f64 \<Rightarrow> f64" where
  "fmin a b = (case a of NaN \<Rightarrow> NaN | Fin x \<Rightarrow> (case b of NaN \<Rightarrow> NaN | Fin y \<Rightarrow> Fin (min x y)))"

text \<open>
  \<open>math.Pow\<close>, for the two exponents the source uses (1.5 and 0.45, positive and not
  integers): \<open>NaN\<close> for a \<open>NaN\<close> base and for a negative base, 0 for the base 0,
  the real power otherwise.
\<close>

definition Pow :: "f64 \<Rightarrow> real \<Rightarrow> f64" where
  "Pow x y = (case x of NaN \<Rightarrow> NaN | Fin v \<Rightarrow> if v < 0 then NaN else Fin (v powr y))"

text \<open>The conversion \<open>float64(i)\<close> of an \<open>int\<close>.\<close>

definition float64 :: "int \<Rightarrow> f64" where
  "float64 i = Fin (of_int i)"

section \<open>Text\<close>

text \<open>
  \<open>strings.ToLower\<close>. On a string of ASCII bytes it maps \<open>A..Z\<close> to \<open>a..z\<close> and
  keeps every other byte. On any other string it maps the string rune by rune through
  the Unicode tables, which are not part of this program: that branch is the parameter
  \<open>um\<close>.
\<close>

definition lowerASCII :: "char \<Rightarrow> char" where
  "lowerASCII c = (let n = (of_char c :: nat) in if 65 \<le> n \<and> n \<le> 90 then char_of (n + 32) else c)"

definition isASCII :: "string \<Rightarrow> bool" where
  "isASCII s = list_all (\<lambda>c. (of_char c :: nat) < 128) s"

definition ToLower :: "(string \<Rightarrow> string) \<Rightarrow> string \<Rightarrow> string" where
  "ToLower um s = (if isASCII s then map lowerASCII s else um s)"

text \<open>The verb \<open>%d\<close>: decimal digits, most significant first, after a minus sign if negative.\<close>

definition digit_char :: "nat \<Rightarrow> char" where
  "digit_char d = char_of (48 + d)"

function digits :: "nat \<Rightarrow> string" where
  "digits n = (if n < 10 then [digit_char n] else digits (n div 10) @ [digit_char (n mod 10)])"
  by pat_completeness auto
termination
  by (relation "measure id") auto

definition fmt_d :: "int \<Rightarrow> string" where
  "fmt_d i = (if i < 0 then ''-'' @ digits (nat (- i)) else digits (nat i))"

text \<open>
  The verb \<open>%.6f\<close>: \<open>NaN\<close> prints as \<open>NaN\<close>; a number prints as its sign if it is
  negative, then the decimal expansion of its magnitude rounded to 6 places (to nearest,
  ties to even), with at least one digit before the point and exactly 6 after.
\<close>

definition round_half_even :: "real \<Rightarrow> int" where
  "round_half_even t = (let f = \<lfloor>t\<rfloor>; d = t - of_int f in
     if d < 1/2 then f else if 1/2 < d then f + 1 else if even f then f else f + 1)"

definition pad6 :: "nat \<Rightarrow> string" where
  "pad6 n = map (\<lambda>p. digit_char (n div p mod 10)) [100000, 10000, 1000, 100, 10, 1]"

definition fmt_6f :: "f64 \<Rightarrow> string" where
  "fmt_6f v = (case v of NaN \<Rightarrow> ''NaN'' | Fin r \<Rightarrow>
     (let m = nat (round_half_even (\<bar>r\<bar> * 1000000)) in
        (if r < 0 then ''-'' else '''') @ digits (m div 1000000) @ ''.'' @ pad6 (m mod 1000000)))"

section \<open>The configuration\<close>

record Config =
  Size :: int
  RedTint :: f64
  BlueTint :: f64
  Output :: string
  Look :: string
  ExposureOffset :: f64

definition setDefaults :: "Config \<Rightarrow> Config" where
  "setDefaults c0 =
     (let c1 = (if Size c0 \<le> 0 then c0\<lparr>Size := 17\<rparr> else c0);
          c2 = (if feq (RedTint c1) (Fin 0) then c1\<lparr>RedTint := Fin 1.05\<rparr> else c1);
          c3 = (if feq (BlueTint c2) (Fin 0) then c2\<lparr>BlueTint := Fin 0.95\<rparr> else c2);
          c4 = (if Output c3 = '''' then c3\<lparr>Output := ''output.cube''\<rparr> else c3);
          c5 = (if Look c4 = '''' then c4\<lparr>Look := ''none''\<rparr> else c4)
      in if feq (ExposureOffset c5) (Fin 0) then c5\<lparr>ExposureOffset := Fin 1.0\<rparr> else c5)"

section \<open>The colour pipeline\<close>

definition appleLogToLinear :: "f64 \<Rightarrow> f64 \<Rightarrow> f64" where
  "appleLogToLinear x exposureOffset = (let v = fmin (x * exposureOffset) (Fin 1) in Pow v 1.5)"

definition rec2020ToRec709 :: "f64 \<Rightarrow> f64 \<Rightarrow> f64 \<Rightarrow> f64 \<times> f64 \<times> f64" where
  "rec2020ToRec709 r g b =
     (let r709 = Fin 1.660 * r - Fin 0.587 * g - Fin 0.073 * b;
          g709 = Fin (- 0.124) * r + Fin 1.132 * g - Fin 0.008 * b;
          b709 = Fin (- 0.018) * r - Fin 0.100 * g + Fin 1.118 * b;
          r709 = (if r709 < Fin 0 then Fin 0 else r709);
          g709 = (if g709 < Fin 0 then Fin 0 else g709);
          b709 = (if b709 < Fin 0 then Fin 0 else b709);
          r709 = (if Fin 1 < r709 then Fin 1 else r709);
          g709 = (if Fin 1 < g709 then Fin 1 else g709);
          b709 = (if Fin 1 < b709 then Fin 1 else b709)
      in (r709, g709, b709))"

definition rec709OETF :: "f64 \<Rightarrow> f64" where
  "rec709OETF lin = (if lin < Fin 0.018 then Fin 4.5 * lin
                     else Fin 1.099 * Pow lin 0.45 - Fin 0.099)"

definition applyTealOrange :: "f64 \<Rightarrow> f64 \<Rightarrow> f64 \<Rightarrow> f64 \<times> f64 \<times> f64" where
  "applyTealOrange r0 g0 b0 =
     (let lum = Fin 0.2126 * r0 + Fin 0.7152 * g0 + Fin 0.0722 * b0;
          origR = r0; origG = g0; origB = b0;
          (r, g, b) =
            (if lum < Fin 0.5 then
               (let rNew = r0 * Fin 0.95; bNew = b0 * Fin 1.1
                in (Fin 0.7 * origR + Fin 0.3 * rNew,
                    Fin 0.7 * origG + Fin 0.3 * origG,
                    Fin 0.7 * origB + Fin 0.3 * bNew))
             else
               (let rNew = r0 * Fin 1.1; bNew = b0 * Fin 0.95
                in (Fin 0.7 * origR + Fin 0.3 * rNew,
                    Fin 0.7 * origG + Fin 0.3 * origG,
                    Fin 0.7 * origB + Fin 0.3 * bNew)));
          r = (if Fin 1 < r then Fin 1 else r);
          g = (if Fin 1 < g then Fin 1 else g);
          b = (if Fin 1 < b then Fin 1 else b)
      in (r, g, b))"

definition applyWarmVintage :: "f64 \<Rightarrow> f64 \<Rightarrow> f64 \<Rightarrow> f64 \<times> f64 \<times> f64" where
  "applyWarmVintage r0 g0 b0 =
     (let r = r0 * Fin 1.05;
          b = b0 * Fin 0.95;
          r = Fin 0.9 * r + Fin 0.1 * Fin 0.5;
          g = Fin 0.9 * g0 + Fin 0.1 * Fin 0.5;
          b = Fin 0.9 * b + Fin 0.1 * Fin 0.5;
          r = (if Fin 1 < r then Fin 1 else r);
          g = (if Fin 1 < g then Fin 1 else g);
          b = (if Fin 1 < b then Fin 1 else b)
      in (r, g, b))"

section \<open>The teal and orange grade in binary64 arithmetic\<close>

text \<open>
  Whether the grade returns the green channel unchanged depends on the rounding of
  \<open>0.7 * g + 0.3 * g\<close>, so \<open>applyTealOrange\<close> is given a second time, on finite
  inputs, with every constant, product and sum rounded as IEEE 754 binary64 does: to the
  nearest number with a 53-bit significand, ties to the even significand. \<open>binade x\<close>
  is the exponent of \<open>x\<close>, not below that of the subnormal numbers; no result here is
  large enough to overflow. Each operation rounds on its own.
\<close>

definition binade :: "real \<Rightarrow> int" where
  "binade x = max \<lfloor>log 2 \<bar>x\<bar>\<rfloor> (- 1022)"

definition round64 :: "real \<Rightarrow> real" where
  "round64 x = (if x = 0 then 0
     else (let q = 2 powi (binade x - 52) in of_int (round_half_even (x / q)) * q))"

definition fmul64 :: "real \<Rightarrow> real \<Rightarrow> real" where
  "fmul64 a b = round64 (a * b)"

definition fadd64 :: "real \<Rightarrow> real \<Rightarrow> real" where
  "fadd64 a b = round64 (a + b)"

definition applyTealOrange64 :: "real \<Rightarrow> real \<Rightarrow> real \<Rightarrow> real \<times> real \<times> real" where
  "applyTealOrange64 r0 g0 b0 =
     (let lum = fadd64 (fadd64 (fmul64 (round64 0.2126) r0) (fmul64 (round64 0.7152) g0))
                       (fmul64 (round64 0.0722) b0);
          origR = r0; origG = g0; origB = b0;
          (r, g, b) =
            (if lum < round64 0.5 then
               (let rNew = fmul64 r0 (round64 0.95); bNew = fmul64 b0 (round64 1.1)
                in (fadd64 (fmul64 (round64 0.7) origR) (fmul64 (round64 0.3) rNew),
                    fadd64 (fmul64 (round64 0.7) origG) (fmul64 (round64 0.3) origG),
                    fadd64 (fmul64 (round64 0.7) origB) (fmul64 (round64 0.3) bNew)))
             else
               (let rNew = fmul64 r0 (round64 1.1); bNew = fmul64 b0 (round64 0.95)
                in (fadd64 (fmul64 (round64 0.7) origR) (fmul64 (round64 0.3) rNew),
                    fadd64 (fmul64 (round64 0.7) origG) (fmul64 (round64 0.3) origG),
                    fadd64 (fmul64 (round64 0.7) origB) (fmul64 (round64 0.3) bNew))));
          r = (if 1 < r then 1 else r);
          g = (if 1 < g then 1 else g);
          b = (if 1 < b then 1 else b)
      in (r, g, b))"

section \<open>The generator\<close>

text \<open>
  The body of the innermost loop: the text appended to the builder for the grid
  coordinate \<open>(i, j, k)\<close>.
\<close>

definition lut_line :: "(string \<Rightarrow> string) \<Rightarrow> Config \<Rightarrow> int \<Rightarrow> int \<Rightarrow> int \<Rightarrow> string" where
  "lut_line um cfg i j k =
     (let size = Size cfg;
          inR = fdiv (float64 i) (float64 (size - 1));
          inG = fdiv (float64 j) (float64 (size - 1));
          inB = fdiv (float64 k) (float64 (size - 1));
          linR = appleLogToLinear inR (ExposureOffset cfg);
          linG = appleLogToLinear inG (ExposureOffset cfg);
          linB = appleLogToLinear inB (ExposureOffset cfg);
          (convR, convG, convB) = rec2020ToRec709 linR linG linB;
          encR = rec709OETF convR;
          encG = rec709OETF convG;
          encB = rec709OETF convB;
          tag = ToLower um (Look cfg);
          (encR, encG, encB) =
            (if tag = ''tealorange'' then applyTealOrange encR encG encB
             else if tag = ''warmvintage'' then applyWarmVintage encR encG encB
             else (encR, encG, encB))
      in fmt_6f encR @ '' '' @ fmt_6f encG @ '' '' @ fmt_6f encB @ [CHR 0x0A])"

text \<open>The three loops, innermost first; each threads the builder's text.\<close>

function loop_k :: "(string \<Rightarrow> string) \<Rightarrow> Config \<Rightarrow> int \<Rightarrow> int \<Rightarrow> int \<Rightarrow> string \<Rightarrow> string" where
  "loop_k um cfg i j k builder =
     (if k < Size cfg then loop_k um cfg i j (k + 1) (builder @ lut_line um cfg i j k)
      else builder)"
  by pat_completeness auto
termination
  by (relation "measure (\<lambda>(um, cfg, i, j, k, builder). nat (Size cfg - k))") auto

function loop_j :: "(string \<Rightarrow> string) \<Rightarrow> Config \<Rightarrow> int \<Rightarrow> int \<Rightarrow> string \<Rightarrow> string" where
  "loop_j um cfg i j builder =
     (if j < Size cfg then loop_j um cfg i (j + 1) (loop_k um cfg i j 0 builder)
      else builder)"
  by pat_completeness auto
termination
  by (relation "measure (\<lambda>(um, cfg, i, j, builder). nat (Size cfg - j))") auto

function loop_i :: "(string \<Rightarrow> string) \<Rightarrow> Config \<Rightarrow> int \<Rightarrow> string \<Rightarrow> string" where
  "loop_i um cfg i builder =
     (if i < Size cfg then loop_i um cfg (i + 1) (loop_j um cfg i 0 builder)
      else builder)"
  by pat_completeness auto
termination
  by (relation "measure (\<lambda>(um, cfg, i, builder). nat (Size cfg - i))") auto

definition generateLUT :: "(string \<Rightarrow> string) \<Rightarrow> Config \<Rightarrow> string" where
  "generateLUT um cfg =
     (let size = Size cfg;
          builder = '''';
          builder = builder @ ''# Generated Cinematic LUT for Apple Log to Rec.709 conversion'' @ [CHR 0x0A];
          builder = builder @ (''LUT_3D_SIZE '' @ fmt_d size @ [CHR 0x0A])
      in loop_i um cfg 0 builder)"

text \<open>
  The part of \<open>processConfigFile\<close> between parsing and writing: the parsed record gets
  its defaults, and the table is generated from the result. It returns the record that
  \<open>generateLUT\<close> receives together with the text.
\<close>

definition processConfigFile :: "(string \<Rightarrow> string) \<Rightarrow> Config \<Rightarrow> Config \<times> string" where
  "processConfigFile um parsed = (let cfg = setDefaults parsed; lutData = generateLUT um cfg in (cfg, lutData))"

section \<open>The specification's view of the table\<close>

text \<open>The two lines before the data: the comment line and the size header.\<close>

definition preamble :: "int \<Rightarrow> string" where
  "preamble n = ''# Generated Cinematic LUT for Apple Log to Rec.709 conversion'' @ [CHR 0x0A] @
     ''LUT_3D_SIZE '' @ fmt_d n @ [CHR 0x0A]"

text \<open>The grid coordinates in nested order: red index outermost, blue index fastest.\<close>

definition grid_coords :: "int \<Rightarrow> (int \<times> int \<times> int) list" where
  "grid_coords n = [(i, j, k). i \<leftarrow> [0..n - 1], j \<leftarrow> [0..n - 1], k \<leftarrow> [0..n - 1]]"

text \<open>The normalised coordinate \<open>i / (size - 1)\<close>, a number as soon as \<open>size\<close> is not 1.\<close>

definition normalize :: "int \<Rightarrow> int \<Rightarrow> f64" where
  "normalize n i = Fin (of_int i / of_int (n - 1))"

text \<open>Stage 4.1, the log decode \<open>min(x * e, 1) ^ 1.5\<close>.\<close>

definition spec_decode :: "f64 \<Rightarrow> f64 \<Rightarrow> f64" where
  "spec_decode e x = Pow (fmin (x * e) (Fin 1)) 1.5"

text \<open>
  Stage 4.2, the gamut conversion: the fixed matrix applied to the triple, then each
  output channel clamped to [0,1] on its own.
\<close>

definition spec_clamp01 :: "f64 \<Rightarrow> f64" where
  "spec_clamp01 v = (if v < Fin 0 then Fin 0 else if Fin 1 < v then Fin 1 else v)"

definition spec_gamut :: "f64 \<times> f64 \<times> f64 \<Rightarrow> f64 \<times> f64 \<times> f64" where
  "spec_gamut c = (case c of (r, g, b) \<Rightarrow>
     (spec_clamp01 (Fin 1.660 * r - Fin 0.587 * g - Fin 0.073 * b),
      spec_clamp01 (Fin (- 0.124) * r + Fin 1.132 * g - Fin 0.008 * b),
      spec_clamp01 (Fin (- 0.018) * r - Fin 0.100 * g + Fin 1.118 * b)))"

text \<open>
  Stage 4.3, the Rec.709 OETF: \<open>4.5 * v\<close> below 0.018, and
  \<open>1.099 * v ^ 0.45 - 0.099\<close> otherwise.
\<close>

definition spec_oetf :: "f64 \<Rightarrow> f64" where
  "spec_oetf v = (if v < Fin 0.018 then Fin 4.5 * v else Fin 1.099 * Pow v 0.45 - Fin 0.099)"

text \<open>
  Stage 4.4, the grades. Both clamp their results to the upper bound 1 only.
  \<open>tealorange\<close>: with the luminance \<open>L = 0.2126 r + 0.7152 g + 0.0722 b\<close> of the
  triple before the grade, the new red is \<open>r * 0.95\<close> and the new blue \<open>b * 1.1\<close> if
  \<open>L < 0.5\<close>, and \<open>r * 1.1\<close> and \<open>b * 0.95\<close> otherwise; red and blue become the blend
  \<open>0.7 * original + 0.3 * new\<close>, and green is blended with itself.
  \<open>warmvintage\<close>: red is multiplied by 1.05 and blue by 0.95, then every channel becomes
  \<open>0.9 * channel + 0.1 * 0.5\<close>.
  Any other look leaves the triple as it is.
\<close>

definition spec_clamp_upper :: "f64 \<Rightarrow> f64" where
  "spec_clamp_upper v = (if Fin 1 < v then Fin 1 else v)"

definition spec_blend :: "f64 \<Rightarrow> f64 \<Rightarrow> f64" where
  "spec_blend orig new = Fin 0.7 * orig + Fin 0.3 * new"

definition spec_tealorange :: "f64 \<times> f64 \<times> f64 \<Rightarrow> f64 \<times> f64 \<times> f64" where
  "spec_tealorange c = (case c of (r, g, b) \<Rightarrow>
     (let L = Fin 0.2126 * r + Fin 0.7152 * g + Fin 0.0722 * b;
          newR = (if L < Fin 0.5 then r * Fin 0.95 else r * Fin 1.1);
          newB = (if L < Fin 0.5 then b * Fin 1.1 else b * Fin 0.95)
      in (spec_clamp_upper (spec_blend r newR),
          spec_clamp_upper (spec_blend g g),
          spec_clamp_upper (spec_blend b newB))))"

definition spec_toward_grey :: "f64 \<Rightarrow> f64" where
  "spec_toward_grey ch = Fin 0.9 * ch + Fin 0.1 * Fin 0.5"

definition spec_warmvintage :: "f64 \<times> f64 \<times> f64 \<Rightarrow> f64 \<times> f64 \<times> f64" where
  "spec_warmvintage c = (case c of (r, g, b) \<Rightarrow>
     (spec_clamp_upper (spec_toward_grey (r * Fin 1.05)),
      spec_clamp_upper (spec_toward_grey g),
      spec_clamp_upper (spec_toward_grey (b * Fin 0.95))))"

definition spec_grade :: "(string \<Rightarrow> string) \<Rightarrow> string \<Rightarrow> f64 \<times> f64 \<times> f64 \<Rightarrow> f64 \<times> f64 \<times> f64" where
  "spec_grade um look c =
     (if ToLower um look = ''tealorange'' then spec_tealorange c
      else if ToLower um look = ''warmvintage'' then spec_warmvintage c
      else c)"

text \<open>The four stages in their order, on the normalised coordinate.\<close>

definition spec_sample :: "(string \<Rightarrow> string) \<Rightarrow> Config \<Rightarrow> int \<times> int \<times> int \<Rightarrow> f64 \<times> f64 \<times> f64" where
  "spec_sample um cfg c = (case c of (i, j, k) \<Rightarrow>
     (let e = ExposureOffset cfg;
          decoded = (spec_decode e (normalize (Size cfg) i),
                     spec_decode e (normalize (Size cfg) j),
                     spec_decode e (normalize (Size cfg) k));
          (r2, g2, b2) = spec_gamut decoded;
          encoded = (spec_oetf r2, spec_oetf g2, spec_oetf b2)
      in spec_grade um (Look cfg) encoded))"

definition spec_line :: "f64 \<times> f64 \<times> f64 \<Rightarrow> string" where
  "spec_line c = (case c of (r, g, b) \<Rightarrow> fmt_6f r @ '' '' @ fmt_6f g @ '' '' @ fmt_6f b @ [CHR 0x0A])"

text \<open>A resolved configuration used to instantiate the theorems below.\<close>

definition example_cfg :: Config where
  "example_cfg = \<lparr>Size = 2, RedTint = Fin 1.05, BlueTint = Fin 0.95, Output = ''output.cube'',
     Look = ''none'', ExposureOffset = Fin 1\<rparr>"

section \<open>The shape of the document\<close>

text \<open>
  A value printed with exactly 6 decimal digits: an optional minus sign, at least one
  digit, a point, and exactly six digits.
\<close>

definition is_digit :: "char \<Rightarrow> bool" where
  "is_digit c = (let n = (of_char c :: nat) in 48 \<le> n \<and> n \<le> 57)"

definition fixed6 :: "string \<Rightarrow> bool" where
  "fixed6 s = (let u = (case s of [] \<Rightarrow> [] | c # t \<Rightarrow> if c = CHR ''-'' then t else s);
                   ip = takeWhile is_digit u;
                   rest = dropWhile is_digit u
               in ip \<noteq> [] \<and>
                  (case rest of [] \<Rightarrow> False
                   | c # fp \<Rightarrow> c = CHR ''.'' \<and> length fp = 6 \<and> list_all is_digit fp))"

text \<open>The pieces of a text between the occurrences of a separator.\<close>

fun split_on :: "char \<Rightarrow> string \<Rightarrow> string list" where
  "split_on c [] = [[]]"
| "split_on c (x # xs) =
     (if x = c then [] # split_on c xs
      else (case split_on c xs of [] \<Rightarrow> [[x]] | w # ws \<Rightarrow> (x # w) # ws))"

text \<open>A data line: three values with 6 decimal digits, separated by single spaces.\<close>

definition data_line_ok :: "string \<Rightarrow> bool" where
  "data_line_ok l = (case split_on CHR '' '' l of
       [a, b, c] \<Rightarrow> fixed6 a \<and> fixed6 b \<and> fixed6 c
     | _ \<Rightarrow> False)"

text \<open>
  The document: the comment line, the header line \<open>LUT_3D_SIZE n\<close>, then exactly
  \<open>n ^ 3\<close> data lines, every line ended by a newline, and nothing after the last one.
\<close>

definition cube_document_ok :: "int \<Rightarrow> string \<Rightarrow> bool" where
  "cube_document_ok n doc = (case split_on (CHR 0x0A) doc of
       c # h # ls \<Rightarrow>
         c = ''# Generated Cinematic LUT for Apple Log to Rec.709 conversion'' \<and>
         h = ''LUT_3D_SIZE '' @ fmt_d n \<and>
         ls \<noteq> [] \<and> last ls = [] \<and>
         int (length (butlast ls)) = n ^ 3 \<and>
         list_all data_line_ok (butlast ls)
     | _ \<Rightarrow> False)"

text \<open>A triple without \<open>NaN\<close>.\<close>

definition num3 :: "f64 \<times> f64 \<times> f64 \<Rightarrow> bool" where
  "num3 t = (case t of (r, g, b) \<Rightarrow> r \<noteq> NaN \<and> g \<noteq> NaN \<and> b \<noteq> NaN)"

text \<open>A resolved configuration with a negative exposure offset.\<close>

definition negative_exposure_cfg :: Config where
  "negative_exposure_cfg = \<lparr>Size = 2, RedTint = Fin 1.05, BlueTint = Fin 0.95, Output = ''output.cube'',
     Look = ''none'', ExposureOffset = Fin (- 1)\<rparr>"

section \<open>Arithmetic and text lemmas\<close>

lemma f64_arith [simp]:
  "Fin x + Fin y = Fin (x + y)" "NaN + a = NaN" "a + NaN = NaN"
  "Fin x - Fin y = Fin (x - y)" "NaN - a = NaN" "a - NaN = NaN"
  "Fin x * Fin y = Fin (x * y)" "NaN * a = NaN" "a * NaN = NaN"
  by (simp_all add: plus_f64_def minus_f64_def times_f64_def split: f64.splits)

lemma f64_order [simp]:
  "Fin x < Fin y \<longleftrightarrow> x < y" "\<not> NaN < a" "\<not> a < NaN"
  "Fin x \<le> Fin y \<longleftrightarrow> x \<le> y" "\<not> NaN \<le> a" "\<not> a \<le> NaN"
  by (simp_all add: less_f64_def less_eq_f64_def split: f64.splits)

lemma feq_simps [simp]:
  "feq (Fin x) (Fin y) \<longleftrightarrow> x = y" "\<not> feq NaN a" "\<not> feq a NaN"
  by (simp_all add: feq_def split: f64.splits)

lemma fmin_simps [simp]:
  "fmin (Fin x) (Fin y) = Fin (min x y)" "fmin NaN a = NaN" "fmin a NaN = NaN"
  by (simp_all add: fmin_def split: f64.splits)

lemma Pow_simps [simp]:
  "Pow NaN y = NaN" "Pow (Fin v) y = (if v < 0 then NaN else Fin (v powr y))"
  by (simp_all add: Pow_def)

lemma fdiv_simps [simp]:
  "fdiv (Fin x) (Fin y) = (if y = 0 then NaN else Fin (x / y))" "fdiv NaN a = NaN" "fdiv a NaN = NaN"
  by (simp_all add: fdiv_def split: f64.splits)

declare digits.simps [simp del]

lemma digits_small: "n < 10 \<Longrightarrow> digits n = [digit_char n]"
  by (subst digits.simps) simp

lemmas char_eval = char_of_def bit_Suc_0_iff

lemma fmt_6f_zero: "fmt_6f (Fin 0) = ''0.000000''"
  by (simp add: fmt_6f_def round_half_even_def pad6_def digit_char_def digits_small char_eval)

lemma fmt_6f_one: "fmt_6f (Fin 1) = ''1.000000''"
  by (simp add: fmt_6f_def round_half_even_def pad6_def digit_char_def digits_small char_eval)

lemma fmt_d_two: "fmt_d 2 = ''2''"
  by (simp add: fmt_d_def digit_char_def digits_small char_eval)

lemma ToLower_none: "ToLower um ''none'' = ''none''"
  by (simp add: ToLower_def isASCII_def lowerASCII_def char_eval)

lemma ToLower_sepia: "ToLower um ''sepia'' = ''sepia''"
  by (simp add: ToLower_def isASCII_def lowerASCII_def char_eval)

lemma ToLower_TealOrange: "ToLower um ''TealOrange'' = ''tealorange''"
  by (simp add: ToLower_def isASCII_def lowerASCII_def char_eval)

lemma ToLower_tealorange: "ToLower um ''tealorange'' = ''tealorange''"
  by (simp add: ToLower_def isASCII_def lowerASCII_def char_eval)

section \<open>The loops as an enumeration\<close>

declare loop_k.simps [simp del] loop_j.simps [simp del] loop_i.simps [simp del]

lemma loop_k_unfold:
  "loop_k um cfg i j k s = s @ concat (map (lut_line um cfg i j) [k..Size cfg - 1])"
proof (induction um cfg i j k s rule: loop_k.induct)
  case (1 um cfg i j k s)
  show ?case
  proof (cases "k < Size cfg")
    case True
    then have "[k..Size cfg - 1] = k # [k + 1..Size cfg - 1]"
      by (simp add: upto_rec1)
    with True 1 show ?thesis by (subst loop_k.simps) simp
  next
    case False
    then show ?thesis by (subst loop_k.simps) simp
  qed
qed

lemma loop_j_unfold:
  "loop_j um cfg i j s =
     s @ concat (map (\<lambda>j'. concat (map (lut_line um cfg i j') [0..Size cfg - 1])) [j..Size cfg - 1])"
proof (induction um cfg i j s rule: loop_j.induct)
  case (1 um cfg i j s)
  show ?case
  proof (cases "j < Size cfg")
    case True
    then have "[j..Size cfg - 1] = j # [j + 1..Size cfg - 1]"
      by (simp add: upto_rec1)
    with True 1 show ?thesis by (subst loop_j.simps) (simp add: loop_k_unfold)
  next
    case False
    then show ?thesis by (subst loop_j.simps) simp
  qed
qed

lemma loop_i_unfold:
  "loop_i um cfg i s =
     s @ concat (map (\<lambda>i'. concat (map (\<lambda>j'. concat (map (lut_line um cfg i' j') [0..Size cfg - 1]))
        [0..Size cfg - 1])) [i..Size cfg - 1])"
proof (induction um cfg i s rule: loop_i.induct)
  case (1 um cfg i s)
  show ?case
  proof (cases "i < Size cfg")
    case True
    then have "[i..Size cfg - 1] = i # [i + 1..Size cfg - 1]"
      by (simp add: upto_rec1)
    with True 1 show ?thesis by (subst loop_i.simps) (simp add: loop_j_unfold)
  next
    case False
    then show ?thesis by (subst loop_i.simps) simp
  qed
qed

lemma concat_map_concat_map:
  "concat (map f (concat (map g xs))) = concat (map (\<lambda>x. concat (map f (g x))) xs)"
  by (induction xs) simp_all

lemma generateLUT_unfold:
  "generateLUT um cfg =
     preamble (Size cfg) @ concat (map (\<lambda>(i, j, k). lut_line um cfg i j k) (grid_coords (Size cfg)))"
  by (simp add: generateLUT_def Let_def loop_i_unfold preamble_def grid_coords_def
      concat_map_concat_map comp_def)

lemma grid_coords_two:
  "grid_coords 2 = [(0,0,0), (0,0,1), (0,1,0), (0,1,1), (1,0,0), (1,0,1), (1,1,0), (1,1,1)]"
  by (simp add: grid_coords_def upto_rec1)

lemma normalize_fdiv: "n \<noteq> 1 \<Longrightarrow> fdiv (float64 i) (float64 (n - 1)) = normalize n i"
  by (simp add: float64_def normalize_def)

lemma rec2020ToRec709_spec: "rec2020ToRec709 r g b = spec_gamut (r, g, b)"
  by (simp add: rec2020ToRec709_def spec_gamut_def spec_clamp01_def Let_def)

lemma rec709OETF_spec: "rec709OETF v = spec_oetf v"
  by (simp add: rec709OETF_def spec_oetf_def)

lemma applyTealOrange_spec: "applyTealOrange r g b = spec_tealorange (r, g, b)"
  by (simp add: applyTealOrange_def spec_tealorange_def spec_clamp_upper_def spec_blend_def Let_def)

lemma applyWarmVintage_spec: "applyWarmVintage r g b = spec_warmvintage (r, g, b)"
  by (simp add: applyWarmVintage_def spec_warmvintage_def spec_clamp_upper_def
      spec_toward_grey_def Let_def)

lemma lut_line_pipeline:
  "Size cfg \<noteq> 1 \<Longrightarrow> lut_line um cfg i j k = spec_line (spec_sample um cfg (i, j, k))"
  by (simp add: lut_line_def Let_def normalize_fdiv spec_sample_def spec_decode_def
      appleLogToLinear_def spec_grade_def spec_line_def rec2020ToRec709_spec rec709OETF_spec
      applyTealOrange_spec applyWarmVintage_spec split: prod.splits)

lemma lut_line_fields:
  assumes "Size a = Size b" "Look a = Look b" "ExposureOffset a = ExposureOffset b"
  shows "lut_line um a i j k = lut_line um b i j k"
  by (simp only: lut_line_def assms)

lemma generateLUT_fields:
  assumes "Size a = Size b" "Look a = Look b" "ExposureOffset a = ExposureOffset b"
  shows "generateLUT um a = generateLUT um b"
  using assms by (simp add: generateLUT_unfold lut_line_fields [OF assms])

lemma lut_line_look:
  assumes "ToLower um l1 = ToLower um l2"
  shows "lut_line um (cfg\<lparr>Look := l1\<rparr>) i j k = lut_line um (cfg\<lparr>Look := l2\<rparr>) i j k"
  using assms by (simp add: lut_line_def)

lemma generateLUT_look:
  assumes "ToLower um l1 = ToLower um l2"
  shows "generateLUT um (cfg\<lparr>Look := l1\<rparr>) = generateLUT um (cfg\<lparr>Look := l2\<rparr>)"
  by (simp add: generateLUT_unfold lut_line_look [OF assms])

lemma lut_line_unrecognised:
  assumes "ToLower um l \<noteq> ''tealorange''" "ToLower um l \<noteq> ''warmvintage''"
  shows "lut_line um (cfg\<lparr>Look := l\<rparr>) i j k = lut_line um (cfg\<lparr>Look := ''none''\<rparr>) i j k"
  using assms by (simp add: lut_line_def ToLower_none)

lemma generateLUT_unrecognised:
  assumes "ToLower um l \<noteq> ''tealorange''" "ToLower um l \<noteq> ''warmvintage''"
  shows "generateLUT um (cfg\<lparr>Look := l\<rparr>) = generateLUT um (cfg\<lparr>Look := ''none''\<rparr>)"
  by (simp add: generateLUT_unfold lut_line_unrecognised [OF assms])

section \<open>Lines and values of the document\<close>

lemma is_digit_digit_char: "d < 10 \<Longrightarrow> is_digit (digit_char d)"
  by (simp add: is_digit_def digit_char_def)

lemma digits_ok: "digits n \<noteq> [] \<and> list_all is_digit (digits n)"
proof (induction n rule: digits.induct)
  case (1 n)
  show ?case
  proof (cases "n < 10")
    case True
    then show ?thesis by (simp add: digits_small is_digit_digit_char)
  next
    case False
    with 1 show ?thesis by (subst (1 2) digits.simps) (simp add: is_digit_digit_char)
  qed
qed

lemma pad6_ok: "length (pad6 n) = 6 \<and> list_all is_digit (pad6 n)"
  by (simp add: pad6_def is_digit_digit_char)

lemma not_digit: "\<not> is_digit CHR ''.''" "\<not> is_digit CHR ''-''" "\<not> is_digit CHR '' ''" "\<not> is_digit (CHR 0x0A)"
  by (simp_all add: is_digit_def)

lemma fixed6_shape:
  assumes "ip \<noteq> []" "list_all is_digit ip" "length fp = 6" "list_all is_digit fp"
  shows "fixed6 (ip @ ''.'' @ fp)" "fixed6 (''-'' @ ip @ ''.'' @ fp)"
proof -
  have tw: "takeWhile is_digit (ip @ CHR ''.'' # fp) = ip"
    using assms(2) by (simp add: takeWhile_append2 list_all_iff not_digit)
  have dw: "dropWhile is_digit (ip @ CHR ''.'' # fp) = CHR ''.'' # fp"
    using assms(2) by (simp add: dropWhile_append2 list_all_iff not_digit)
  obtain c t where ip: "ip = c # t" using assms(1) by (cases ip) auto
  then have c: "c \<noteq> CHR ''-''" using assms(2) not_digit by auto
  have u: "(case ip @ ''.'' @ fp of [] \<Rightarrow> [] | c # t \<Rightarrow> if c = CHR ''-'' then t else ip @ ''.'' @ fp) = ip @ CHR ''.'' # fp"
    using ip c by simp
  show "fixed6 (ip @ ''.'' @ fp)"
    unfolding fixed6_def u Let_def tw dw using assms by simp
  show "fixed6 (''-'' @ ip @ ''.'' @ fp)"
    unfolding fixed6_def Let_def using assms by (simp add: tw dw)
qed

lemma fixed6_fmt: "fixed6 (fmt_6f (Fin r))"
  using fixed6_shape [OF conjunct1 [OF digits_ok] conjunct2 [OF digits_ok] conjunct1 [OF pad6_ok] conjunct2 [OF pad6_ok]]
  by (simp add: fmt_6f_def Let_def)

lemma fmt_chars: "c \<in> set (fmt_6f (Fin r)) \<Longrightarrow> is_digit c \<or> c = CHR ''.'' \<or> c = CHR ''-''"
  using digits_ok pad6_ok by (auto simp: fmt_6f_def Let_def list_all_iff split: if_splits)

lemma fmt_no_sep: "CHR '' '' \<notin> set (fmt_6f (Fin r))" "CHR 0x0A \<notin> set (fmt_6f (Fin r))"
  using fmt_chars not_digit by auto

lemma split_on_none: "c \<notin> set l \<Longrightarrow> split_on c l = [l]"
  by (induction l) auto

lemma split_on_append: "c \<notin> set l \<Longrightarrow> split_on c (l @ c # rest) = l # split_on c rest"
  by (induction l) auto

lemma split_on_lines:
  "\<forall>l \<in> set ls. c \<notin> set l \<Longrightarrow> split_on c (concat (map (\<lambda>l. l @ [c]) ls)) = ls @ [[]]"
  by (induction ls) (simp_all add: split_on_append)

lemma data_line_ok_fmt:
  "data_line_ok (fmt_6f (Fin a) @ '' '' @ fmt_6f (Fin b) @ '' '' @ fmt_6f (Fin c))"
proof -
  have "split_on CHR '' '' (fmt_6f (Fin a) @ CHR '' '' # fmt_6f (Fin b) @ CHR '' '' # fmt_6f (Fin c))
        = [fmt_6f (Fin a), fmt_6f (Fin b), fmt_6f (Fin c)]"
    by (simp add: split_on_append split_on_none fmt_no_sep)
  then show ?thesis by (simp add: data_line_ok_def fixed6_fmt)
qed

lemma f64_num [simp]:
  "a + b \<noteq> NaN \<longleftrightarrow> a \<noteq> NaN \<and> b \<noteq> NaN"
  "a - b \<noteq> NaN \<longleftrightarrow> a \<noteq> NaN \<and> b \<noteq> NaN"
  "a * b \<noteq> NaN \<longleftrightarrow> a \<noteq> NaN \<and> b \<noteq> NaN"
  by (cases a; cases b; simp)+

lemma spec_decode_num: "0 \<le> x \<Longrightarrow> 0 \<le> e \<Longrightarrow> spec_decode (Fin e) (Fin x) \<noteq> NaN"
  by (simp add: spec_decode_def not_less)

lemma rec2020ToRec709_num:
  "num3 (rec2020ToRec709 (Fin r) (Fin g) (Fin b)) \<and>
   Fin 0 \<le> fst (rec2020ToRec709 (Fin r) (Fin g) (Fin b)) \<and>
   Fin 0 \<le> fst (snd (rec2020ToRec709 (Fin r) (Fin g) (Fin b))) \<and>
   Fin 0 \<le> snd (snd (rec2020ToRec709 (Fin r) (Fin g) (Fin b)))"
  by (simp add: rec2020ToRec709_def Let_def num3_def)

lemma rec709OETF_num: "Fin 0 \<le> l \<Longrightarrow> rec709OETF l \<noteq> NaN"
  by (cases l) (simp_all add: rec709OETF_def not_less)

lemma applyTealOrange_num:
  "r \<noteq> NaN \<Longrightarrow> g \<noteq> NaN \<Longrightarrow> b \<noteq> NaN \<Longrightarrow> num3 (applyTealOrange r g b)"
  by (cases r; cases g; cases b) (simp_all add: applyTealOrange_def Let_def num3_def)

lemma applyWarmVintage_num:
  "r \<noteq> NaN \<Longrightarrow> g \<noteq> NaN \<Longrightarrow> b \<noteq> NaN \<Longrightarrow> num3 (applyWarmVintage r g b)"
  by (cases r; cases g; cases b) (simp_all add: applyWarmVintage_def Let_def num3_def)

lemma spec_grade_num:
  "r \<noteq> NaN \<Longrightarrow> g \<noteq> NaN \<Longrightarrow> b \<noteq> NaN \<Longrightarrow> num3 (spec_grade um look (r, g, b))"
  by (simp add: spec_grade_def applyTealOrange_num applyWarmVintage_num
      applyTealOrange_spec [symmetric] applyWarmVintage_spec [symmetric]) (simp add: num3_def)

lemma spec_sample_num:
  assumes "2 \<le> Size cfg" "ExposureOffset cfg = Fin e" "0 \<le> e" "0 \<le> i" "0 \<le> j" "0 \<le> k"
  shows "num3 (spec_sample um cfg (i, j, k))"
proof -
  have n: "\<And>m. 0 \<le> m \<Longrightarrow> spec_decode (Fin e) (normalize (Size cfg) m) \<noteq> NaN"
    using assms(1,3) by (simp add: normalize_def spec_decode_num)
  obtain r1 g1 b1 where d:
    "spec_decode (Fin e) (normalize (Size cfg) i) = Fin r1"
    "spec_decode (Fin e) (normalize (Size cfg) j) = Fin g1"
    "spec_decode (Fin e) (normalize (Size cfg) k) = Fin b1"
    using n [OF assms(4)] n [OF assms(5)] n [OF assms(6)] by (meson f64.exhaust)
  obtain r2 g2 b2 where c: "rec2020ToRec709 (Fin r1) (Fin g1) (Fin b1) = (r2, g2, b2)"
    by (cases "rec2020ToRec709 (Fin r1) (Fin g1) (Fin b1)") auto
  have pos: "Fin 0 \<le> r2" "Fin 0 \<le> g2" "Fin 0 \<le> b2"
    using rec2020ToRec709_num [of r1 g1 b1] by (simp_all add: c)
  show ?thesis
    using spec_grade_num [OF rec709OETF_num [OF pos(1)] rec709OETF_num [OF pos(2)] rec709OETF_num [OF pos(3)]]
    by (simp add: spec_sample_def assms(2) d c rec2020ToRec709_spec [symmetric]
        rec709OETF_spec [symmetric])
qed

lemma data_line_ok_num:
  "num3 t \<Longrightarrow> data_line_ok (case t of (r, g, b) \<Rightarrow> fmt_6f r @ '' '' @ fmt_6f g @ '' '' @ fmt_6f b)"
proof -
  assume "num3 t"
  then obtain a b c where "t = (Fin a, Fin b, Fin c)"
    unfolding num3_def by (cases t) (auto, meson f64.exhaust)
  then show ?thesis using data_line_ok_fmt [of a b c] by simp
qed

lemma line_no_newline:
  "num3 t \<Longrightarrow> CHR 0x0A \<notin> set (case t of (r, g, b) \<Rightarrow> fmt_6f r @ '' '' @ fmt_6f g @ '' '' @ fmt_6f b)"
proof -
  assume "num3 t"
  then obtain a b c where "t = (Fin a, Fin b, Fin c)"
    unfolding num3_def by (cases t) (auto, meson f64.exhaust)
  then show ?thesis by (simp add: fmt_no_sep)
qed

lemma grid_coords_nonneg: "(i, j, k) \<in> set (grid_coords n) \<Longrightarrow> 0 \<le> i \<and> 0 \<le> j \<and> 0 \<le> k"
  by (auto simp: grid_coords_def)

lemma length_concat_const:
  "(\<And>x. x \<in> set xs \<Longrightarrow> length (f x) = m) \<Longrightarrow> length (concat (map f xs)) = length xs * m"
  by (induction xs) simp_all

lemma length_grid_coords: "0 \<le> n \<Longrightarrow> int (length (grid_coords n)) = n ^ 3"
proof -
  assume n: "0 \<le> n"
  have l: "length [0..n - 1] = nat n" by simp
  have "length (grid_coords n) = nat n * (nat n * nat n)"
    unfolding grid_coords_def
    by (simp add: length_concat_const l)
  then show ?thesis using n by (simp add: power3_eq_cube)
qed

lemma spec_line_values:
  "spec_line t = (case t of (r, g, b) \<Rightarrow> fmt_6f r @ '' '' @ fmt_6f g @ '' '' @ fmt_6f b) @ [CHR 0x0A]"
  by (cases t) (simp add: spec_line_def)

lemma generateLUT_lines:
  assumes "2 \<le> Size cfg"
  shows "generateLUT um cfg = concat (map (\<lambda>l. l @ [CHR 0x0A])
     (''# Generated Cinematic LUT for Apple Log to Rec.709 conversion'' #
      (''LUT_3D_SIZE '' @ fmt_d (Size cfg)) #
      map (\<lambda>c. case spec_sample um cfg c of (r, g, b) \<Rightarrow> fmt_6f r @ '' '' @ fmt_6f g @ '' '' @ fmt_6f b)
        (grid_coords (Size cfg))))"
proof -
  have "Size cfg \<noteq> 1" using assms by simp
  then have "(\<lambda>(i, j, k). lut_line um cfg i j k) = (\<lambda>c. spec_line (spec_sample um cfg c))"
    by (auto simp: lut_line_pipeline fun_eq_iff)
  then show ?thesis
    by (simp add: generateLUT_unfold preamble_def spec_line_values comp_def)
qed

lemma fmt_d_no_newline: "CHR 0x0A \<notin> set (fmt_d n)"
  using digits_ok not_digit by (auto simp: fmt_d_def list_all_iff)

lemma fmt_6f_NaN: "fmt_6f NaN = ''NaN''"
  by (simp add: fmt_6f_def)

section \<open>Rounding to binary64\<close>

lemma round_half_even_error: "\<bar>of_int (round_half_even t) - t\<bar> \<le> 1/2"
  unfolding round_half_even_def Let_def by (auto simp: abs_le_iff)

lemma floor_log2_eq:
  assumes "2 powi k \<le> x" "x < 2 powi (k + 1)"
  shows "\<lfloor>log 2 x\<rfloor> = k"
proof -
  have pos: "0 < x" using assms(1) by (smt (verit) zero_less_power_int)
  have p: "2 powi j = (2::real) powr (of_int j)" for j
    by (simp add: powr_real_of_int')
  have "of_int k \<le> log 2 x" using assms(1) pos by (simp add: le_log_iff p)
  moreover have "log 2 x < of_int k + 1" using assms(2) pos
    by (simp add: log_less_iff p add.commute)
  ultimately show ?thesis by linarith
qed

lemma round64_binade:
  assumes "2 powi k \<le> x" "x < 2 powi (k + 1)" "- 1022 \<le> k"
  shows "round64 x = of_int (round_half_even (x / 2 powi (k - 52))) * 2 powi (k - 52)"
proof -
  have pos: "0 < x" using assms(1) by (smt (verit) zero_less_power_int)
  have "binade x = k" using floor_log2_eq [OF assms(1,2)] pos assms(3) by (simp add: binade_def)
  then show ?thesis using pos by (simp add: round64_def Let_def)
qed

lemma round64_error:
  assumes "0 \<le> x" "x < 2"
  shows "\<bar>round64 x - x\<bar> \<le> 1 / 2 ^ 53"
proof (cases "x = 0")
  case True
  then show ?thesis by (simp add: round64_def)
next
  case False
  then have pos: "0 < x" using assms(1) by simp
  have "log 2 x < 1" using pos assms(2) by (simp add: log_less_iff)
  then have "\<lfloor>log 2 x\<rfloor> \<le> 0" by linarith
  then have b: "binade x - 52 \<le> - 52" using pos by (simp add: binade_def)
  define q :: real where "q = 2 powi (binade x - 52)"
  have q0: "0 < q" by (simp add: q_def)
  have "q \<le> 2 powi (- 52)" unfolding q_def using b by (intro power_int_increasing) simp_all
  then have q52: "q \<le> 1 / 2 ^ 52" by (simp add: power_int_minus field_simps)
  have "round64 x - x = (of_int (round_half_even (x / q)) - x / q) * q"
    using False q0 by (simp add: round64_def q_def [symmetric] Let_def field_simps)
  then have "\<bar>round64 x - x\<bar> = \<bar>of_int (round_half_even (x / q)) - x / q\<bar> * q"
    using q0 by (simp add: abs_mult)
  also have "\<dots> \<le> 1/2 * q"
    using round_half_even_error [of "x / q"] q0 by (intro mult_right_mono) simp_all
  also have "\<dots> \<le> 1 / 2 ^ 53" using q52 by simp
  finally show ?thesis .
qed

lemma round64_nonneg: "0 \<le> x \<Longrightarrow> 0 \<le> round64 x"
proof -
  assume x: "0 \<le> x"
  have "0 \<le> round_half_even t" if "0 \<le> t" for t :: real
    using that by (auto simp: round_half_even_def Let_def)
  then show ?thesis using x by (simp add: round64_def Let_def)
qed

lemma applyTealOrange64_green:
  "fst (snd (applyTealOrange64 r g b)) =
     (let s = fadd64 (fmul64 (round64 0.7) g) (fmul64 (round64 0.3) g) in if 1 < s then 1 else s)"
  by (simp add: applyTealOrange64_def Let_def)

lemma round64_07: "round64 (7/10) = 6305039478318694 / 2 ^ 53"
  using round64_binade [of "-1" "7/10"] by (simp add: power_int_minus round_half_even_def)

lemma round64_03: "round64 (3/10) = 5404319552844595 / 2 ^ 54"
  using round64_binade [of "-2" "3/10"] by (simp add: power_int_minus round_half_even_def)

lemma green_29_32:
  "fadd64 (fmul64 (round64 0.7) (29/32)) (fmul64 (round64 0.3) (29/32)) = 29/32 - 1 / 2 ^ 53"
proof -
  have p1: "fmul64 (round64 0.7) (29/32) = 5713942027226316 / 2 ^ 53"
    using round64_binade [of "-1" "6305039478318694 / 2 ^ 53 * (29/32)"]
    by (simp add: fmul64_def round64_07 power_int_minus round_half_even_def)
  have p2: "fmul64 (round64 0.3) (29/32) = 4897664594765414 / 2 ^ 54"
    using round64_binade [of "-2" "5404319552844595 / 2 ^ 54 * (29/32)"]
    by (simp add: fmul64_def round64_03 power_int_minus round_half_even_def)
  show ?thesis
    using round64_binade [of "-1" "5713942027226316 / 2 ^ 53 + 4897664594765414 / 2 ^ 54"]
    by (simp add: fadd64_def p1 p2 power_int_minus round_half_even_def)
qed

text \<open>
  With an exposure offset that is a number not below 0, no value is \<open>NaN\<close> and the
  document has the shape \<open>cube_document_ok\<close>.
\<close>

lemma generateLUT_document_shape:
  assumes "2 \<le> Size cfg" "ExposureOffset cfg = Fin e" "0 \<le> e"
  shows "cube_document_ok (Size cfg) (generateLUT um cfg)"
proof -
  let ?val = "\<lambda>c. case spec_sample um cfg c of (r, g, b) \<Rightarrow> fmt_6f r @ '' '' @ fmt_6f g @ '' '' @ fmt_6f b"
  let ?ds = "map ?val (grid_coords (Size cfg))"
  let ?c = "''# Generated Cinematic LUT for Apple Log to Rec.709 conversion''"
  let ?h = "''LUT_3D_SIZE '' @ fmt_d (Size cfg)"
  have num: "num3 (spec_sample um cfg c)" if "c \<in> set (grid_coords (Size cfg))" for c
  proof -
    obtain i j k where c: "c = (i, j, k)" by (cases c) auto
    with that grid_coords_nonneg have "0 \<le> i \<and> 0 \<le> j \<and> 0 \<le> k" by blast
    then show ?thesis using spec_sample_num [OF assms] c by blast
  qed
  have nlv: "CHR 0x0A \<notin> set (?val c)" if "c \<in> set (grid_coords (Size cfg))" for c
    using line_no_newline [OF num [OF that]] .
  have okv: "data_line_ok (?val c)" if "c \<in> set (grid_coords (Size cfg))" for c
    using data_line_ok_num [OF num [OF that]] .
  have nl: "\<forall>l \<in> set (?c # ?h # ?ds). CHR 0x0A \<notin> set l"
    using nlv by (simp add: fmt_d_no_newline split_def)
  have ok: "list_all data_line_ok ?ds"
    using okv by (simp add: list_all_iff split_def)
  have len: "int (length ?ds) = Size cfg ^ 3"
    using assms(1) by (simp add: length_grid_coords)
  have "split_on (CHR 0x0A) (generateLUT um cfg) = (?c # ?h # ?ds) @ [[]]"
    unfolding generateLUT_lines [OF assms(1)] using nl by (rule split_on_lines)
  then show ?thesis using ok len by (simp add: cube_document_ok_def)
qed

section \<open>The claims\<close>

text \<open>
  C1. For every configuration with size at least 2, the text is the two preamble lines
  followed by one line per grid coordinate, the coordinates taken in nested order with the
  red index outermost and the blue index fastest; the line of \<open>(i, j, k)\<close> prints the
  triple obtained from \<open>(i/(size-1), j/(size-1), k/(size-1))\<close> by the log decode
  \<open>min(x * exposureOffset, 1) ^ 1.5\<close> on each channel, then the gamut matrix with its
  clamp, then the OETF on each channel, then the grade selected by the look.
\<close>

theorem generateLUT_pipeline_order:
  assumes "2 \<le> Size cfg"
  shows "generateLUT um cfg =
     preamble (Size cfg) @ concat (map (\<lambda>c. spec_line (spec_sample um cfg c)) (grid_coords (Size cfg)))"
proof -
  have "Size cfg \<noteq> 1" using assms by simp
  then have "(\<lambda>(i, j, k). lut_line um cfg i j k) = (\<lambda>c. spec_line (spec_sample um cfg c))"
    by (auto simp: lut_line_pipeline fun_eq_iff)
  then show ?thesis by (simp add: generateLUT_unfold)
qed

theorem generateLUT_pipeline_order_witness:
  "2 \<le> Size example_cfg \<and>
   generateLUT (\<lambda>s. s) example_cfg =
     preamble (Size example_cfg) @
     concat (map (\<lambda>c. spec_line (spec_sample (\<lambda>s. s) example_cfg c)) (grid_coords (Size example_cfg)))"
  using generateLUT_pipeline_order [of example_cfg "\<lambda>s. s"] by (simp add: example_cfg_def)

text \<open>
  C2. The claim: for every configuration with size at least 2 the text is exactly the
  comment line, the header line \<open>LUT_3D_SIZE <size>\<close>, and \<open>size ^ 3\<close> data lines of
  three values with 6 decimal digits separated by spaces, each line ended by a newline.
  The code breaks it for a negative exposure offset: \<open>appleLogToLinear\<close> clips the
  product only from above, \<open>math.Pow\<close> of the negative product is \<open>NaN\<close>, and with
  size 2 and exposure offset -1 the line of coordinate \<open>(0, 0, 1)\<close> is \<open>NaN NaN NaN\<close>.
\<close>

theorem generateLUT_negative_exposure_NaN:
  "\<not> cube_document_ok 2 (generateLUT (\<lambda>s. s) negative_exposure_cfg) \<and>
   lut_line (\<lambda>s. s) negative_exposure_cfg 0 0 1 = ''NaN NaN NaN'' @ [CHR 0x0A]"
proof -
  have dec: "appleLogToLinear (Fin 0) (Fin (- 1)) = Fin 0" "appleLogToLinear (Fin 1) (Fin (- 1)) = NaN"
    by (simp_all add: appleLogToLinear_def)
  have oetf: "rec709OETF (Fin 0) = Fin 0" "rec709OETF NaN = NaN"
    by (simp_all add: rec709OETF_def)
  have g: "generateLUT (\<lambda>s. s) negative_exposure_cfg =
     ''# Generated Cinematic LUT for Apple Log to Rec.709 conversion'' @ [CHR 0x0A] @
     ''LUT_3D_SIZE 2'' @ [CHR 0x0A] @
     ''0.000000 0.000000 0.000000'' @ [CHR 0x0A] @
     ''NaN NaN NaN'' @ [CHR 0x0A] @
     ''NaN NaN NaN'' @ [CHR 0x0A] @
     ''NaN NaN NaN'' @ [CHR 0x0A] @
     ''NaN NaN NaN'' @ [CHR 0x0A] @
     ''NaN NaN NaN'' @ [CHR 0x0A] @
     ''NaN NaN NaN'' @ [CHR 0x0A] @
     ''NaN NaN NaN'' @ [CHR 0x0A]"
    by (simp add: generateLUT_unfold grid_coords_two preamble_def fmt_d_two lut_line_def
        negative_exposure_cfg_def float64_def ToLower_none dec rec2020ToRec709_def oetf
        fmt_6f_zero fmt_6f_NaN Let_def)
  have l: "lut_line (\<lambda>s. s) negative_exposure_cfg 0 0 1 = ''NaN NaN NaN'' @ [CHR 0x0A]"
    by (simp add: lut_line_def negative_exposure_cfg_def float64_def ToLower_none dec
        rec2020ToRec709_def oetf fmt_6f_NaN Let_def)
  have "\<not> data_line_ok ''NaN NaN NaN''"
    by (simp add: data_line_ok_def fixed6_def is_digit_def)
  then have "\<not> cube_document_ok 2 (generateLUT (\<lambda>s. s) negative_exposure_cfg)"
    unfolding g by (simp add: cube_document_ok_def)
  with l show ?thesis by simp
qed

text \<open>
  C3. For a configuration with size 2, look \<open>none\<close> and exposure offset 1.0 the text has
  the header line \<open>LUT_3D_SIZE 2\<close> and exactly 8 data lines; the line of coordinate
  \<open>(0,0,0)\<close> is \<open>0.000000 0.000000 0.000000\<close> and the line of \<open>(1,1,1)\<close> is
  \<open>1.000000 1.000000 1.000000\<close>.
\<close>

theorem generateLUT_size2_none:
  assumes "Size cfg = 2" "Look cfg = ''none''" "ExposureOffset cfg = Fin 1"
  shows "generateLUT um cfg =
     ''# Generated Cinematic LUT for Apple Log to Rec.709 conversion'' @ [CHR 0x0A] @
     ''LUT_3D_SIZE 2'' @ [CHR 0x0A] @
     ''0.000000 0.000000 0.000000'' @ [CHR 0x0A] @
     ''0.000000 0.000000 1.000000'' @ [CHR 0x0A] @
     ''0.000000 1.000000 0.000000'' @ [CHR 0x0A] @
     ''0.000000 1.000000 1.000000'' @ [CHR 0x0A] @
     ''1.000000 0.000000 0.000000'' @ [CHR 0x0A] @
     ''1.000000 0.000000 1.000000'' @ [CHR 0x0A] @
     ''1.000000 1.000000 0.000000'' @ [CHR 0x0A] @
     ''1.000000 1.000000 1.000000'' @ [CHR 0x0A]
   \<and> lut_line um cfg 0 0 0 = ''0.000000 0.000000 0.000000'' @ [CHR 0x0A]
   \<and> lut_line um cfg 1 1 1 = ''1.000000 1.000000 1.000000'' @ [CHR 0x0A]"
proof -
  have dec: "appleLogToLinear (Fin 0) (Fin 1) = Fin 0" "appleLogToLinear (Fin 1) (Fin 1) = Fin 1"
    by (simp_all add: appleLogToLinear_def)
  have oetf: "rec709OETF (Fin 0) = Fin 0" "rec709OETF (Fin 1) = Fin 1"
    by (simp_all add: rec709OETF_def)
  show ?thesis
    using assms
    by (simp add: generateLUT_unfold grid_coords_two preamble_def fmt_d_two lut_line_def
        float64_def ToLower_none dec rec2020ToRec709_def oetf fmt_6f_zero fmt_6f_one Let_def)
qed

theorem generateLUT_size2_none_witness:
  "Size example_cfg = 2 \<and> Look example_cfg = ''none'' \<and> ExposureOffset example_cfg = Fin 1 \<and>
   lut_line (\<lambda>s. s) example_cfg 1 1 1 = ''1.000000 1.000000 1.000000'' @ [CHR 0x0A]"
  using generateLUT_size2_none [of example_cfg "\<lambda>s. s"] by (simp add: example_cfg_def)

text \<open>
  C4. For all real inputs, each channel returned by the gamut conversion lies in [0,1] and
  is the clamp to [0,1] of its matrix row applied to the three unclamped inputs.
\<close>

theorem rec2020ToRec709_clamped:
  "(let (r', g', b') = rec2020ToRec709 (Fin r) (Fin g) (Fin b) in
      Fin 0 \<le> r' \<and> r' \<le> Fin 1 \<and> Fin 0 \<le> g' \<and> g' \<le> Fin 1 \<and> Fin 0 \<le> b' \<and> b' \<le> Fin 1 \<and>
      r' = Fin (max 0 (min 1 (1.660 * r - 0.587 * g - 0.073 * b))) \<and>
      g' = Fin (max 0 (min 1 (- 0.124 * r + 1.132 * g - 0.008 * b))) \<and>
      b' = Fin (max 0 (min 1 (- 0.018 * r - 0.100 * g + 1.118 * b))))"
  by (simp add: rec2020ToRec709_def Let_def max_def min_def)

theorem rec2020ToRec709_clamped_witness:
  "rec2020ToRec709 (Fin 1) (Fin 0) (Fin 0) = (Fin 1, Fin 0, Fin 0)"
  using rec2020ToRec709_clamped [of 1 0 0] by (simp split: prod.splits)

text \<open>
  C5. For \<open>x\<close> in [0,1] and \<open>e \<ge> 0\<close> the log decode is \<open>min(x * e, 1) ^ 1.5\<close>, and for a
  fixed \<open>e\<close> it does not decrease when \<open>x\<close> grows within [0,1].
\<close>

theorem appleLogToLinear_formula_mono:
  assumes "0 \<le> x" "x \<le> y" "y \<le> 1" "0 \<le> e"
  shows "appleLogToLinear (Fin x) (Fin e) = Fin ((min (x * e) 1) powr 1.5) \<and>
         appleLogToLinear (Fin x) (Fin e) \<le> appleLogToLinear (Fin y) (Fin e)"
proof -
  have xe: "0 \<le> x * e" and ye: "0 \<le> y * e" using assms by simp_all
  have le: "min (x * e) 1 \<le> min (y * e) 1"
    using assms by (simp add: min.coboundedI1 mult_right_mono)
  have m0: "0 \<le> min (x * e) 1" "0 \<le> min (y * e) 1" using xe ye by simp_all
  have "min (x * e) 1 powr 1.5 \<le> min (y * e) 1 powr 1.5"
    using le m0 by (intro powr_mono2) simp_all
  moreover have "\<not> min (x * e) 1 < 0" "\<not> min (y * e) 1 < 0"
    using m0 by (simp_all only: not_less)
  ultimately show ?thesis by (simp add: appleLogToLinear_def Let_def del: min_less_iff_disj)
qed

theorem appleLogToLinear_formula_mono_witness:
  "(0::real) \<le> 1/4 \<and> (1/4::real) \<le> 1/2 \<and> (1/2::real) \<le> 1 \<and> (0::real) \<le> 2 \<and>
   appleLogToLinear (Fin (1/4)) (Fin 2) = Fin ((min (1/4 * 2) 1) powr 1.5) \<and>
   appleLogToLinear (Fin (1/4)) (Fin 2) \<le> appleLogToLinear (Fin (1/2)) (Fin 2)"
proof -
  have h: "(0::real) \<le> 1/4" "(1/4::real) \<le> 1/2" "(1/2::real) \<le> 1" "(0::real) \<le> 2"
    by simp_all
  from appleLogToLinear_formula_mono [OF h] show ?thesis using h by blast
qed

text \<open>
  C6, as the code has it. For every finite input triple with green in [0,1], the green
  channel returned by the teal and orange grade is the binary64 value of
  \<open>0.7 * g + 0.3 * g\<close>, which is within \<open>5 / 2 ^ 53\<close> of the input green. It is not
  always the input green: for the green 0.90625 it is \<open>0.90625 - 1 / 2 ^ 53\<close>
  (printed 0.9062499999999999).
\<close>

theorem applyTealOrange64_green_near:
  assumes "0 \<le> g" "g \<le> 1"
  shows "fst (snd (applyTealOrange64 r g b)) =
           (let s = fadd64 (fmul64 (round64 0.7) g) (fmul64 (round64 0.3) g) in if 1 < s then 1 else s) \<and>
         \<bar>fst (snd (applyTealOrange64 r g b)) - g\<bar> \<le> 5 / 2 ^ 53"
proof -
  define u :: real where "u = 1 / 2 ^ 53"
  have u: "0 < u" "u \<le> 1/100" by (simp_all add: u_def)
  define c7 where "c7 = round64 0.7"
  define c3 where "c3 = round64 0.3"
  have e7: "\<bar>c7 - 7/10\<bar> \<le> u" unfolding c7_def u_def using round64_error [of "7/10"] by simp
  have e3: "\<bar>c3 - 3/10\<bar> \<le> u" unfolding c3_def u_def using round64_error [of "3/10"] by simp
  have c7b: "0 \<le> c7" "c7 \<le> 71/100" using e7 u by (simp_all add: abs_le_iff)
  have c3b: "0 \<le> c3" "c3 \<le> 31/100" using e3 u by (simp_all add: abs_le_iff)
  have m7: "0 \<le> c7 * g" "c7 * g \<le> 71/100"
    using c7b assms by (simp_all add: mult_le_one mult_mono [of c7 "71/100" g 1, simplified])
  have m3: "0 \<le> c3 * g" "c3 * g \<le> 31/100"
    using c3b assms by (simp_all add: mult_mono [of c3 "31/100" g 1, simplified])
  define p1 where "p1 = fmul64 c7 g"
  define p2 where "p2 = fmul64 c3 g"
  have ep1: "\<bar>p1 - c7 * g\<bar> \<le> u" unfolding p1_def fmul64_def u_def using m7 by (intro round64_error) simp_all
  have ep2: "\<bar>p2 - c3 * g\<bar> \<le> u" unfolding p2_def fmul64_def u_def using m3 by (intro round64_error) simp_all
  have "0 \<le> p1" "0 \<le> p2"
    unfolding p1_def p2_def fmul64_def using m7(1) m3(1) by (simp_all add: round64_nonneg)
  then have sb: "0 \<le> p1 + p2" "p1 + p2 < 2" using ep1 ep2 m7 m3 u by (simp_all add: abs_le_iff)
  define s where "s = fadd64 p1 p2"
  have es: "\<bar>s - (p1 + p2)\<bar> \<le> u" unfolding s_def fadd64_def u_def using sb by (intro round64_error)
  have d7: "\<bar>c7 * g - 7/10 * g\<bar> \<le> u"
  proof -
    have "c7 * g - 7/10 * g = (c7 - 7/10) * g" by (simp add: algebra_simps)
    then have "\<bar>c7 * g - 7/10 * g\<bar> = \<bar>c7 - 7/10\<bar> * g" using assms(1) by (simp only: abs_mult abs_of_nonneg)
    also have "\<dots> \<le> u * 1" using e7 assms by (intro mult_mono) simp_all
    finally show ?thesis by simp
  qed
  have d3: "\<bar>c3 * g - 3/10 * g\<bar> \<le> u"
  proof -
    have "c3 * g - 3/10 * g = (c3 - 3/10) * g" by (simp add: algebra_simps)
    then have "\<bar>c3 * g - 3/10 * g\<bar> = \<bar>c3 - 3/10\<bar> * g" using assms(1) by (simp only: abs_mult abs_of_nonneg)
    also have "\<dots> \<le> u * 1" using e3 assms by (intro mult_mono) simp_all
    finally show ?thesis by simp
  qed
  have "\<bar>s - g\<bar> \<le> 5 * u" using es ep1 ep2 d7 d3 by (simp add: abs_le_iff)
  then have "\<bar>(if 1 < s then 1 else s) - g\<bar> \<le> 5 * u" using assms by (auto simp: abs_le_iff)
  moreover have "fst (snd (applyTealOrange64 r g b)) = (if 1 < s then 1 else s)"
    by (simp add: applyTealOrange64_green Let_def s_def p1_def p2_def c7_def c3_def)
  ultimately have "\<bar>fst (snd (applyTealOrange64 r g b)) - g\<bar> \<le> 5 / 2 ^ 53"
    by (simp only: u_def)
  then show ?thesis using applyTealOrange64_green [of r g b] by simp
qed

theorem applyTealOrange64_green_near_witness:
  "(0::real) \<le> 29/32 \<and> (29/32::real) \<le> 1 \<and>
   \<bar>fst (snd (applyTealOrange64 (29/32) (29/32) (29/32))) - 29/32\<bar> \<le> 5 / 2 ^ 53"
proof -
  have h: "(0::real) \<le> 29/32" "(29/32::real) \<le> 1" by simp_all
  from applyTealOrange64_green_near [OF h, of "29/32" "29/32"] show ?thesis using h by blast
qed

theorem applyTealOrange64_green_differs:
  "fst (snd (applyTealOrange64 (29/32) (29/32) (29/32))) = 29/32 - 1 / 2 ^ 53 \<and>
   fst (snd (applyTealOrange64 (29/32) (29/32) (29/32))) \<noteq> 29/32"
  by (simp add: applyTealOrange64_green green_29_32 Let_def)

text \<open>
  C7. Two configurations that agree on every field except the red and blue tints give the
  same text.
\<close>

theorem generateLUT_ignores_tints:
  assumes "Size a = Size b" "Output a = Output b" "Look a = Look b"
    "ExposureOffset a = ExposureOffset b"
  shows "generateLUT um a = generateLUT um b"
  using assms by (intro generateLUT_fields)

theorem generateLUT_ignores_tints_witness:
  "generateLUT (\<lambda>s. s) (example_cfg\<lparr>RedTint := Fin 2, BlueTint := Fin 3\<rparr>) = generateLUT (\<lambda>s. s) example_cfg"
  using generateLUT_ignores_tints [of "example_cfg\<lparr>RedTint := Fin 2, BlueTint := Fin 3\<rparr>" example_cfg "\<lambda>s. s"]
  by simp

text \<open>
  C8. The look is selected through its lower-case form only: two looks with the same
  lower-case form give the same text, and a look whose lower-case form is neither
  \<open>tealorange\<close> nor \<open>warmvintage\<close> gives the text of the look \<open>none\<close>.
\<close>

theorem generateLUT_look_selection:
  "(ToLower um l1 = ToLower um l2 \<longrightarrow>
      generateLUT um (cfg\<lparr>Look := l1\<rparr>) = generateLUT um (cfg\<lparr>Look := l2\<rparr>)) \<and>
   (ToLower um l \<noteq> ''tealorange'' \<and> ToLower um l \<noteq> ''warmvintage'' \<longrightarrow>
      generateLUT um (cfg\<lparr>Look := l\<rparr>) = generateLUT um (cfg\<lparr>Look := ''none''\<rparr>))"
  using generateLUT_look [of um l1 l2 cfg] generateLUT_unrecognised [of um l cfg] by blast

theorem generateLUT_look_selection_witness:
  "ToLower (\<lambda>s. s) ''TealOrange'' = ToLower (\<lambda>s. s) ''tealorange'' \<and>
   generateLUT (\<lambda>s. s) (example_cfg\<lparr>Look := ''TealOrange''\<rparr>) =
     generateLUT (\<lambda>s. s) (example_cfg\<lparr>Look := ''tealorange''\<rparr>) \<and>
   ToLower (\<lambda>s. s) ''sepia'' \<noteq> ''tealorange'' \<and> ToLower (\<lambda>s. s) ''sepia'' \<noteq> ''warmvintage'' \<and>
   generateLUT (\<lambda>s. s) (example_cfg\<lparr>Look := ''sepia''\<rparr>) =
     generateLUT (\<lambda>s. s) (example_cfg\<lparr>Look := ''none''\<rparr>)"
  using generateLUT_look_selection [of "\<lambda>s. s" "''TealOrange''" "''tealorange''" example_cfg "''sepia''"]
  by (simp add: ToLower_TealOrange ToLower_tealorange ToLower_sepia)

text \<open>
  C9. For every input triple in [0,1]^3, no channel returned by the teal and orange grade
  or by the warm vintage grade exceeds 1.
\<close>

theorem grades_at_most_one:
  assumes "0 \<le> r" "r \<le> 1" "0 \<le> g" "g \<le> 1" "0 \<le> b" "b \<le> 1"
  shows "(let (r', g', b') = applyTealOrange (Fin r) (Fin g) (Fin b)
           in r' \<le> Fin 1 \<and> g' \<le> Fin 1 \<and> b' \<le> Fin 1) \<and>
         (let (r', g', b') = applyWarmVintage (Fin r) (Fin g) (Fin b)
           in r' \<le> Fin 1 \<and> g' \<le> Fin 1 \<and> b' \<le> Fin 1)"
  by (simp add: applyTealOrange_def applyWarmVintage_def Let_def)

theorem grades_at_most_one_witness:
  "(let (r', g', b') = applyTealOrange (Fin 1) (Fin 1) (Fin 1)
     in r' \<le> Fin 1 \<and> g' \<le> Fin 1 \<and> b' \<le> Fin 1) \<and>
   (let (r', g', b') = applyWarmVintage (Fin 1) (Fin 1) (Fin 1)
     in r' \<le> Fin 1 \<and> g' \<le> Fin 1 \<and> b' \<le> Fin 1)"
  using grades_at_most_one [of 1 1 1] by simp

text \<open>
  C10. The defaults replace every size that is zero or negative by 17 and an exposure
  offset equal to 0 by 1.0, and keep any other size and offset; so the record that
  \<open>processConfigFile\<close> hands to \<open>generateLUT\<close> has a positive size and an exposure
  offset that is not zero.
\<close>

theorem setDefaults_size_exposure:
  "Size (setDefaults c) = (if Size c \<le> 0 then 17 else Size c) \<and>
   ExposureOffset (setDefaults c) =
     (if feq (ExposureOffset c) (Fin 0) then Fin 1.0 else ExposureOffset c) \<and>
   (let (cfg, lutData) = processConfigFile um c
     in 0 < Size cfg \<and> \<not> feq (ExposureOffset cfg) (Fin 0) \<and> lutData = generateLUT um cfg)"
  by (cases "ExposureOffset c") (simp_all add: setDefaults_def processConfigFile_def Let_def)

theorem setDefaults_size_exposure_witness:
  "Size (setDefaults (example_cfg\<lparr>Size := - 3, ExposureOffset := Fin 0\<rparr>)) = 17 \<and>
   ExposureOffset (setDefaults (example_cfg\<lparr>Size := - 3, ExposureOffset := Fin 0\<rparr>)) = Fin 1"
  using setDefaults_size_exposure [of "example_cfg\<lparr>Size := - 3, ExposureOffset := Fin 0\<rparr>" "\<lambda>s. s"]
  by simp

end
